theory Spec2Isabelle
  imports Main "HOL-Library.Sublist"
begin

section \<open>The adjust.com collector: \<open>src/collectors/adjust.py\<close>\<close>

text \<open>
  The collector is one linear pipeline: fetch a report per app, concatenate, write a CSV
  file, truncate the warehouse table, bulk-load the file. Everything outside the Python
  file (the network, pandas, the file system, the warehouse) is part of an explicit
  \<open>world\<close> that each function takes and returns. Every \<open>raise\<close> is a value \<open>Inl e\<close>.
  Logging and \<open>print\<close> have no effect on any result and are left out.

  Strings are byte lists; names and keys are taken to be ASCII, where Python's characters
  and bytes coincide.
\<close>

datatype error =
    ValueError | KeyError
  | FileNotFoundError | FileExistsError | NotADirectoryError | IsADirectoryError
  | URLError | DatabaseError

subsection \<open>\<open>str.format\<close> with keyword arguments\<close>

text \<open>
  \<open>template.format(name=value, ...)\<close>: the template is scanned from the left; \<open>{{\<close> and
  \<open>}}\<close> stand for a literal brace, \<open>{name}\<close> is replaced by the keyword's value, a lone
  brace raises ValueError and an unknown name raises KeyError. The scanner's second argument
  is the replacement field being read, if any. Only plain keyword fields are modelled
  (no positions, attributes, conversions or format specifications): they are all that the
  templates of the collector use. The values are strings and are inserted as they are;
  only the template is scanned.
\<close>

definition emit :: "string \<Rightarrow> error + string \<Rightarrow> error + string" where
  "emit s r = (case r of Inl e \<Rightarrow> Inl e | Inr t \<Rightarrow> Inr (s @ t))"

fun format_scan :: "(string \<times> string) list \<Rightarrow> string option \<Rightarrow> string \<Rightarrow> error + string" where
  "format_scan kw None [] = Inr []"
| "format_scan kw (Some name) [] = Inl ValueError"
| "format_scan kw None (c # cs) =
     (if c = CHR ''{'' then
        (case cs of
           [] \<Rightarrow> Inl ValueError
         | d # ds \<Rightarrow>
             if d = CHR ''{'' then emit ''{'' (format_scan kw None ds)
             else format_scan kw (Some []) cs)
      else if c = CHR ''}'' then
        (case cs of
           [] \<Rightarrow> Inl ValueError
         | d # ds \<Rightarrow>
             if d = CHR ''}'' then emit ''}'' (format_scan kw None ds)
             else Inl ValueError)
      else emit [c] (format_scan kw None cs))"
| "format_scan kw (Some name) (c # cs) =
     (if c = CHR ''}'' then
        (case map_of kw name of
           None \<Rightarrow> Inl KeyError
         | Some v \<Rightarrow> emit v (format_scan kw None cs))
      else format_scan kw (Some (name @ [c])) cs)"

definition str_format :: "string \<Rightarrow> (string \<times> string) list \<Rightarrow> error + string" where
  "str_format template kw = format_scan kw None template"

subsection \<open>The request URL\<close>

definition ADJUST_URL_BASE :: string where
  "ADJUST_URL_BASE = ''https://api.adjust.com/kpis/v1/{app_key}''"

definition build_dau_url :: "string \<Rightarrow> string \<Rightarrow> error + string" where
  "build_dau_url app_key token =
     (case str_format ADJUST_URL_BASE [(''app_key'', app_key)] of
        Inl e \<Rightarrow> Inl e
      | Inr url \<Rightarrow>
          let url = url @ ''.csv'' in
          (case str_format ''?user_token={user_token}'' [(''user_token'', token)] of
             Inl e \<Rightarrow> Inl e
           | Inr q \<Rightarrow>
               let url = url @ q;
                   url = url @ ''&kpis=daus,waus,maus,installs'';
                   url = url @ ''&start_date=2000-01-01'';
                   url = url @ ''&end_date=2030-01-01'';
                   url = url @ ''&grouping=day,os_names'';
                   url = url @ ''&os_names=android,ios''
               in Inr url))"

subsection \<open>Tables\<close>

text \<open>
  A field of a CSV record as pandas reads it: missing (an empty field, NaN), an integer,
  or text that is not a number. Integers are kept exact; decimal fractions, float64
  rounding and infinities are outside the model.
\<close>

datatype cell = NA | Num int | Txt string

text \<open>
  A \<open>pandas.DataFrame\<close> with the default index: the column labels and the rows, every
  row holding one cell per column.
\<close>

record DataFrame =
  columns :: "string list"
  rows :: "cell list list"

fun index_of :: "'a \<Rightarrow> 'a list \<Rightarrow> nat option" where
  "index_of x [] = None"
| "index_of x (y # ys) = (if x = y then Some 0 else map_option Suc (index_of x ys))"

text \<open>\<open>df[name]\<close>: the column as a list, KeyError when there is no such label.\<close>

definition getitem :: "DataFrame \<Rightarrow> string \<Rightarrow> error + cell list" where
  "getitem df name =
     (case index_of name (columns df) of
        None \<Rightarrow> Inl KeyError
      | Some i \<Rightarrow> Inr (map (\<lambda>r. r ! i) (rows df)))"

text \<open>
  \<open>df[name] = values\<close>: an existing column is replaced in place, a new label is appended
  as the last column. The values are one per row.
\<close>

definition setitem :: "DataFrame \<Rightarrow> string \<Rightarrow> cell list \<Rightarrow> DataFrame" where
  "setitem df name vals =
     (case index_of name (columns df) of
        Some i \<Rightarrow> df\<lparr>rows := map2 (\<lambda>r v. r[i := v]) (rows df) vals\<rparr>
      | None \<Rightarrow> df\<lparr>columns := columns df @ [name],
                     rows := map2 (\<lambda>r v. r @ [v]) (rows df) vals\<rparr>)"

text \<open>\<open>series.fillna(v)\<close>: every missing value becomes \<open>v\<close>.\<close>

definition fillna :: "cell \<Rightarrow> cell list \<Rightarrow> cell list" where
  "fillna v col = map (\<lambda>c. if c = NA then v else c) col"

text \<open>
  \<open>series.astype(int)\<close>: integers stay, a missing value or text that is not a number
  raises ValueError for the whole column.
\<close>

fun astype_int :: "cell list \<Rightarrow> error + cell list" where
  "astype_int [] = Inr []"
| "astype_int (Num n # cs) =
     (case astype_int cs of Inl e \<Rightarrow> Inl e | Inr ds \<Rightarrow> Inr (Num n # ds))"
| "astype_int (c # cs) = Inl ValueError"

text \<open>
  \<open>pd.concat(frames)\<close>: ValueError ("No objects to concatenate") on the empty list,
  otherwise the rows of the frames one after the other, in the order of the list. The
  frames concatenated here all carry the same labels (lemma \<open>collect_app_columns\<close>), where
  the union of the labels that pandas takes is the labels of the first frame.
\<close>

definition pd_concat :: "DataFrame list \<Rightarrow> error + DataFrame" where
  "pd_concat frames =
     (case frames of
        [] \<Rightarrow> Inl ValueError
      | f # fs \<Rightarrow> Inr \<lparr>columns = columns f, rows = concat (map rows frames)\<rparr>)"

subsection \<open>The world outside the process\<close>

text \<open>
  A record of a response body: the six fields of one CSV line. The API's reports have six
  columns; what pandas does with ragged lines is outside the model.
\<close>

datatype line = Line cell cell cell cell cell cell

fun cells :: "line \<Rightarrow> cell list" where
  "cells (Line a b c d e f) = [a, b, c, d, e, f]"

text \<open>
  \<^item> \<open>http\<close>: what a GET of a URL answers, an error or the records of the body;
    \<open>requested\<close>: the URLs fetched so far, oldest first.
  \<^item> \<open>fs_dirs\<close>, \<open>fs_files\<close>: the directories and the files of the file system, by their
    lists of path components. A file holds CSV records, the header first.
  \<^item> \<open>connect_raises\<close>, \<open>db_raises\<close>: the connection strings and the statements that the
    warehouse refuses; \<open>tables\<close>: the rows of every table; \<open>submitted\<close>: the statements
    handed to \<open>cursor.execute\<close> so far, oldest first.
\<close>

record world =
  http :: "string \<Rightarrow> error + line list"
  requested :: "string list"
  fs_dirs :: "string list set"
  fs_files :: "string list \<Rightarrow> cell list list option"
  connect_raises :: "string \<Rightarrow> error option"
  db_raises :: "string \<Rightarrow> error option"
  tables :: "string \<Rightarrow> cell list list"
  submitted :: "string list"

subsection \<open>Report Fetcher\<close>

text \<open>
  \<open>pd.read_csv(url, sep=",", header=h, names=names)\<close>: one GET of the URL. With
  \<open>header=None\<close> every record is data; with \<open>header=h\<close> record \<open>h\<close> is the header line
  and the data starts after it, the labels of the header being replaced by \<open>names\<close>.
  A body with no record after the header gives a table without rows.
\<close>

definition read_csv ::
    "string \<Rightarrow> nat option \<Rightarrow> string list \<Rightarrow> world \<Rightarrow> (error + DataFrame) \<times> world" where
  "read_csv url header names w =
     (let w' = w\<lparr>requested := requested w @ [url]\<rparr> in
      case http w url of
        Inl e \<Rightarrow> (Inl e, w')
      | Inr body \<Rightarrow>
          (Inr \<lparr>columns = names,
                rows = map cells (case header of None \<Rightarrow> body | Some h \<Rightarrow> drop (Suc h) body)\<rparr>,
           w'))"

definition collect_app :: "string \<Rightarrow> string \<Rightarrow> world \<Rightarrow> (error + DataFrame) \<times> world" where
  "collect_app app_name url w =
     (let col_names = [''adj_date'', ''os'', ''daus'', ''waus'', ''maus'', ''installs''] in
      case read_csv url (Some 0) col_names w of
        (Inl e, w') \<Rightarrow> (Inl e, w')
      | (Inr df, w') \<Rightarrow>
          (case getitem df ''installs'' of
             Inl e \<Rightarrow> (Inl e, w')
           | Inr installs \<Rightarrow>
               (case astype_int (fillna (Num 0) installs) of
                  Inl e \<Rightarrow> (Inl e, w')
                | Inr ints \<Rightarrow>
                    let df = setitem df ''installs'' ints;
                        df = setitem df ''app'' (replicate (length (rows df)) (Txt app_name))
                    in (Inr df, w'))))"

subsection \<open>Report Merger\<close>

text \<open>
  \<open>for app, key in iter(apps)\<close>: \<open>apps\<close> is the dictionary of the configuration, here
  the list of its (name, key) items in their order. Iterating a dictionary yields its
  keys, so each item of the loop is an app name, a string, and the two targets unpack it:
  a string of exactly two characters gives its two characters, any other length raises
  ValueError.
\<close>

fun unpack_pair :: "string \<Rightarrow> error + string \<times> string" where
  "unpack_pair [a, b] = Inr ([a], [b])"
| "unpack_pair s = Inl ValueError"

definition iter :: "(string \<times> string) list \<Rightarrow> string list" where
  "iter apps = map fst apps"

fun merge_loop ::
    "string list \<Rightarrow> string \<Rightarrow> DataFrame list \<Rightarrow> world \<Rightarrow> (error + DataFrame list) \<times> world" where
  "merge_loop [] adjust_token frames w = (Inr frames, w)"
| "merge_loop (item # items) adjust_token frames w =
     (case unpack_pair item of
        Inl e \<Rightarrow> (Inl e, w)
      | Inr (app, key) \<Rightarrow>
          (case build_dau_url key adjust_token of
             Inl e \<Rightarrow> (Inl e, w)
           | Inr url \<Rightarrow>
               (case collect_app app url w of
                  (Inl e, w') \<Rightarrow> (Inl e, w')
                | (Inr df, w') \<Rightarrow> merge_loop items adjust_token (frames @ [df]) w')))"

definition merge_apps ::
    "(string \<times> string) list \<Rightarrow> string \<Rightarrow> world \<Rightarrow> (error + DataFrame) \<times> world" where
  "merge_apps apps adjust_token w =
     (case merge_loop (iter apps) adjust_token [] w of
        (Inl e, w') \<Rightarrow> (Inl e, w')
      | (Inr frames, w') \<Rightarrow> (pd_concat frames, w'))"

subsection \<open>File Writer\<close>

text \<open>
  \<open>os.path.join(a, b)\<close> for POSIX paths: an absolute \<open>b\<close> replaces \<open>a\<close>, otherwise \<open>b\<close>
  is appended, after a slash unless \<open>a\<close> is empty or ends with one.
\<close>

definition path_join :: "string \<Rightarrow> string \<Rightarrow> string" where
  "path_join a b =
     (if take 1 b = ''/'' then b
      else if a = [] \<or> last a = CHR ''/'' then a @ b
      else a @ ''/'' @ b)"

text \<open>
  The node that a path names: its components, without the empty ones and the \<open>.\<close> ones.
  The working directory of the process is taken to be the root, so that a relative path
  and its absolute form name the same node; \<open>..\<close> components and symbolic links are
  outside the model. The root is the empty list and always exists.
\<close>

fun split_sep :: "char \<Rightarrow> string \<Rightarrow> string list" where
  "split_sep s [] = [[]]"
| "split_sep s (c # cs) =
     (if c = s then [] # split_sep s cs
      else (case split_sep s cs of [] \<Rightarrow> [[c]] | x # xs \<Rightarrow> (c # x) # xs))"

definition resolve :: "string \<Rightarrow> string list" where
  "resolve p = filter (\<lambda>c. c \<noteq> [] \<and> c \<noteq> ''.'') (split_sep CHR ''/'' p)"

definition is_dir :: "world \<Rightarrow> string list \<Rightarrow> bool" where
  "is_dir w q = (q = [] \<or> q \<in> fs_dirs w)"

definition is_file :: "world \<Rightarrow> string list \<Rightarrow> bool" where
  "is_file w q = (fs_files w q \<noteq> None)"

text \<open>\<open>os.path.exists(p)\<close>: the empty path names nothing.\<close>

definition path_exists :: "world \<Rightarrow> string \<Rightarrow> bool" where
  "path_exists w p = (p \<noteq> [] \<and> (is_dir w (resolve p) \<or> is_file w (resolve p)))"

text \<open>
  \<open>os.makedirs(name)\<close>: creates the directory and every missing directory above it.
  It raises FileNotFoundError on the empty path, FileExistsError when the path exists
  already, NotADirectoryError when a file is in the way.
\<close>

definition makedirs :: "string \<Rightarrow> world \<Rightarrow> (error + unit) \<times> world" where
  "makedirs name w =
     (if name = [] then (Inl FileNotFoundError, w)
      else
        let q = resolve name in
        if is_dir w q \<or> is_file w q then (Inl FileExistsError, w)
        else if list_ex (is_file w) (prefixes q) then (Inl NotADirectoryError, w)
        else (Inr (), w\<lparr>fs_dirs := fs_dirs w \<union> set (prefixes q)\<rparr>))"

text \<open>
  \<open>df.to_csv(path, index=False)\<close>: the file is created or replaced; it holds the labels
  as its first record and one record per row after it. How a cell is printed and the comma
  between the fields, the default separator of \<open>to_csv\<close>, are below the level of the
  records that the model keeps. Opening the file raises when the path is empty, names a
  directory, or lies in no directory.
\<close>

definition to_csv :: "DataFrame \<Rightarrow> string \<Rightarrow> world \<Rightarrow> (error + unit) \<times> world" where
  "to_csv df path w =
     (if path = [] then (Inl FileNotFoundError, w)
      else
        let q = resolve path in
        if is_dir w q then (Inl IsADirectoryError, w)
        else if \<not> is_dir w (butlast q) then (Inl FileNotFoundError, w)
        else (Inr (), w\<lparr>fs_files := (fs_files w)(q \<mapsto> map Txt (columns df) # rows df)\<rparr>))"

definition write_to_file ::
    "DataFrame \<Rightarrow> string \<Rightarrow> string \<Rightarrow> world \<Rightarrow> (error + string) \<times> world" where
  "write_to_file df load_path filename w =
     (let data_file = path_join load_path filename in
      case (if \<not> path_exists w load_path then makedirs load_path w else (Inr (), w)) of
        (Inl e, w1) \<Rightarrow> (Inl e, w1)
      | (Inr u, w1) \<Rightarrow>
          (case to_csv df data_file w1 of
             (Inl e, w2) \<Rightarrow> (Inl e, w2)
           | (Inr u, w2) \<Rightarrow> (Inr data_file, w2)))"

subsection \<open>Warehouse Loader\<close>

datatype cursor = Cursor string

text \<open>\<open>pyodbc.connect("DSN=%s" % dsn).cursor()\<close>.\<close>

definition connect :: "string \<Rightarrow> world \<Rightarrow> (error + cursor) \<times> world" where
  "connect dsn w =
     (let cnxn = ''DSN='' @ dsn in
      case connect_raises w cnxn of
        Some e \<Rightarrow> (Inl e, w)
      | None \<Rightarrow> (Inr (Cursor cnxn), w))"

fun strip_prefix :: "string \<Rightarrow> string \<Rightarrow> string option" where
  "strip_prefix [] s = Some s"
| "strip_prefix (p # ps) [] = None"
| "strip_prefix (p # ps) (c # cs) = (if p = c then strip_prefix ps cs else None)"

fun split_first :: "string \<Rightarrow> string \<Rightarrow> (string \<times> string) option" where
  "split_first pat [] = (if pat = [] then Some ([], []) else None)"
| "split_first pat (c # cs) =
     (case strip_prefix pat (c # cs) of
        Some rest \<Rightarrow> Some ([], rest)
      | None \<Rightarrow> map_option (\<lambda>(a, b). (c # a, b)) (split_first pat cs))"

text \<open>The table and the file of a statement \<open>COPY t FROM LOCAL 'f' ...\<close>.\<close>

definition parse_copy :: "string \<Rightarrow> (string \<times> string) option" where
  "parse_copy stmt =
     (case strip_prefix ''COPY '' stmt of
        None \<Rightarrow> None
      | Some r \<Rightarrow>
          (case split_first ('' FROM LOCAL '' @ [CHR 0x27]) r of
             None \<Rightarrow> None
           | Some (t, r2) \<Rightarrow>
               (case split_first [CHR 0x27] r2 of
                  None \<Rightarrow> None
                | Some (f, r3) \<Rightarrow> Some (t, f))))"

text \<open>
  \<open>cursor.execute(stmt)\<close> on the warehouse. A statement that the warehouse refuses raises
  and changes no table. \<open>TRUNCATE TABLE t\<close> empties \<open>t\<close> at once: the warehouse commits a
  truncate with the statement itself, and the collector never rolls back.
  \<open>COPY t FROM LOCAL 'f' ... SKIP 1\<close> appends the records of the file after the first
  to \<open>t\<close> and raises when there is no such file. Any other statement changes no table.
\<close>

definition execute :: "cursor \<Rightarrow> string \<Rightarrow> world \<Rightarrow> (error + unit) \<times> world" where
  "execute cursor stmt w =
     (let w' = w\<lparr>submitted := submitted w @ [stmt]\<rparr> in
      case db_raises w stmt of
        Some e \<Rightarrow> (Inl e, w')
      | None \<Rightarrow>
          (case strip_prefix ''TRUNCATE TABLE '' stmt of
             Some t \<Rightarrow> (Inr (), w'\<lparr>tables := (tables w)(t := [])\<rparr>)
           | None \<Rightarrow>
               (case parse_copy stmt of
                  None \<Rightarrow> (Inr (), w')
                | Some (t, f) \<Rightarrow>
                    (case fs_files w (resolve f) of
                       None \<Rightarrow> (Inl DatabaseError, w')
                     | Some recs \<Rightarrow>
                         (Inr (), w'\<lparr>tables := (tables w)(t := tables w t @ drop 1 recs)\<rparr>)))))"

definition load ::
    "cursor \<Rightarrow> string \<Rightarrow> string \<Rightarrow> string \<Rightarrow> string \<Rightarrow> world \<Rightarrow> (error + unit) \<times> world" where
  "load cursor table data_file reject_file exception_file w =
     (let trunc_tmpl = ''TRUNCATE TABLE {tbl}'' in
      case str_format trunc_tmpl [(''tbl'', table)] of
        Inl e \<Rightarrow> (Inl e, w)
      | Inr trunc_stmt \<Rightarrow>
          (case execute cursor trunc_stmt w of
             (Inl e, w1) \<Rightarrow> (Inl e, w1)
           | (Inr u, w1) \<Rightarrow>
               let files = [(''data_file'', data_file),
                            (''reject_file'', reject_file),
                            (''exception_file'', exception_file)];
                   copy_tmpl = ''COPY {table} FROM LOCAL '{data_file}' '' @
                               ''DELIMITER ',' SKIP 1 '' @
                               ''REJECTED DATA '{reject_file}' '' @
                               ''EXCEPTIONS '{exception_file}' '' @
                               ''ABORT ON ERROR DIRECT''
               in (case str_format copy_tmpl ((''table'', table) # files) of
                     Inl e \<Rightarrow> (Inl e, w1)
                   | Inr copy_stmt \<Rightarrow> execute cursor copy_stmt w1)))"

subsection \<open>The command\<close>

text \<open>
  The settings are what \<open>load_settings(config_file)\<close> returns, a nested dictionary with the
  keys of the example configuration; \<open>a_apps\<close> is the dictionary \<open>apps\<close>, the
  (name, key) items in the order of the file.
\<close>

record adjust_settings =
  a_token :: string
  a_apps :: "(string \<times> string) list"

record vertica_settings =
  v_dsn :: string
  v_table :: string

record settings =
  s_load_path :: string
  s_vertica :: vertica_settings
  s_adjust :: adjust_settings

definition collect :: "adjust_settings \<Rightarrow> string \<Rightarrow> world \<Rightarrow> (error + string) \<times> world" where
  "collect adj_settings load_path w =
     (let apps = a_apps adj_settings;
          token = a_token adj_settings
      in case merge_apps apps token w of
           (Inl e, w') \<Rightarrow> (Inl e, w')
         | (Inr df, w') \<Rightarrow> write_to_file df load_path ''output.csv'' w')"

definition adjust_cmd :: "settings \<Rightarrow> world \<Rightarrow> (error + unit) \<times> world" where
  "adjust_cmd config w =
     (let adjust_settings = s_adjust config;
          vertica_settings = s_vertica config;
          load_path = s_load_path config
      in case connect (v_dsn vertica_settings) w of
           (Inl e, w1) \<Rightarrow> (Inl e, w1)
         | (Inr cursor, w1) \<Rightarrow>
             (case collect adjust_settings load_path w1 of
                (Inl e, w2) \<Rightarrow> (Inl e, w2)
              | (Inr output_file, w2) \<Rightarrow>
                  let reject_file = path_join load_path ''rejects'';
                      exception_file = path_join load_path ''exceptions''
                  in load cursor (v_table vertica_settings) output_file
                       reject_file exception_file w2))"

subsection \<open>Notions used in the statements\<close>

fun installs_of :: "line \<Rightarrow> cell" where
  "installs_of (Line a b c d e f) = f"

fun is_txt :: "cell \<Rightarrow> bool" where
  "is_txt (Txt s) = True"
| "is_txt c = False"


text \<open>
  The Report Row of the specification's data model, for one record of a response and the
  app it was fetched for: the six fields of the record, a missing installs as the
  integer 0, and the app name.
\<close>

fun report_row :: "string \<Rightarrow> line \<Rightarrow> cell list" where
  "report_row app_name (Line a b c d e f) =
     [a, b, c, d, e, (if f = NA then Num 0 else f), Txt app_name]"

definition report_columns :: "string list" where
  "report_columns = [''adj_date'', ''os'', ''daus'', ''waus'', ''maus'', ''installs'', ''app'']"


text \<open>The two statements of the Loader, as the warehouse receives them.\<close>

definition truncate_statement :: "string \<Rightarrow> string" where
  "truncate_statement table = ''TRUNCATE TABLE '' @ table"

definition copy_statement :: "string \<Rightarrow> string \<Rightarrow> string \<Rightarrow> string \<Rightarrow> string" where
  "copy_statement table data_file reject_file exception_file =
     ''COPY '' @ table @ '' FROM LOCAL '' @ [CHR 0x27] @ data_file @ [CHR 0x27] @
     '' DELIMITER ',' SKIP 1 REJECTED DATA '' @ [CHR 0x27] @ reject_file @ [CHR 0x27] @
     '' EXCEPTIONS '' @ [CHR 0x27] @ exception_file @ [CHR 0x27] @
     '' ABORT ON ERROR DIRECT''"

subsection \<open>Example inputs\<close>

text \<open>
  A world at the start of a run: nothing requested, no directory but the root, no file,
  a warehouse that accepts every connection and statement, empty tables.
\<close>

definition fresh_world :: "(string \<Rightarrow> error + line list) \<Rightarrow> world" where
  "fresh_world answers =
     \<lparr>http = answers, requested = [], fs_dirs = {}, fs_files = (\<lambda>p. None),
      connect_raises = (\<lambda>c. None), db_raises = (\<lambda>s. None),
      tables = (\<lambda>t. []), submitted = []\<rparr>"

definition header_line :: line where
  "header_line =
     Line (Txt ''date'') (Txt ''os_names'') (Txt ''daus'') (Txt ''waus'') (Txt ''maus'')
       (Txt ''installs'')"

definition report_line :: "string \<Rightarrow> string \<Rightarrow> cell \<Rightarrow> line" where
  "report_line day os_name n = Line (Txt day) (Txt os_name) (Num 10) (Num 50) (Num 200) n"

text \<open>The URL of an app key with the token \<open>abcdefg\<close> of the example configuration.\<close>

definition example_url :: "string \<Rightarrow> string" where
  "example_url key =
     ''https://api.adjust.com/kpis/v1/'' @ key @
     ''.csv?user_token=abcdefg&kpis=daus,waus,maus,installs'' @
     ''&start_date=2000-01-01&end_date=2030-01-01&grouping=day,os_names&os_names=android,ios''"

text \<open>
  Two reports: a header line and three records for the key \<open>abc123\<close>, a header line and
  five records for the key \<open>def456\<close>.
\<close>

definition two_reports :: "string \<Rightarrow> error + line list" where
  "two_reports url =
     (if url = example_url ''abc123'' then
        Inr [header_line,
             report_line ''2019-01-01'' ''android'' (Num 1),
             report_line ''2019-01-01'' ''ios'' (Num 2),
             report_line ''2019-01-02'' ''android'' (Num 3)]
      else if url = example_url ''def456'' then
        Inr [header_line,
             report_line ''2019-01-01'' ''android'' (Num 4),
             report_line ''2019-01-01'' ''ios'' (Num 5),
             report_line ''2019-01-02'' ''android'' (Num 6),
             report_line ''2019-01-02'' ''ios'' (Num 7),
             report_line ''2019-01-03'' ''android'' (Num 8)]
      else Inl URLError)"



text \<open>
  A report for the key \<open>x\<close> only: a header line, a record with a missing installs value
  and a record with 3 installs.
\<close>

definition report_for_x :: "string \<Rightarrow> error + line list" where
  "report_for_x url =
     (if url = example_url ''x'' then
        Inr [header_line,
             report_line ''2019-01-01'' ''android'' NA,
             report_line ''2019-01-02'' ''android'' (Num 3)]
      else Inl URLError)"

text \<open>
  A warehouse whose tables hold one row each and that refuses every \<open>COPY\<close> statement.
\<close>

definition refusing_copy :: world where
  "refusing_copy =
     (fresh_world two_reports)
       \<lparr>db_raises := (\<lambda>stmt. if take 5 stmt = ''COPY '' then Some DatabaseError else None),
        tables := (\<lambda>t. [[Txt ''2018-12-31'', Txt ''ios'', Num 1, Num 2, Num 3, Num 4,
                        Txt ''firefox'']])\<rparr>"


text \<open>The example configuration of the docstring of \<open>adjust_cmd\<close>.\<close>

definition example_config :: settings where
  "example_config =
     \<lparr>s_load_path = ''/tmp/adjust_daus'',
      s_vertica = \<lparr>v_dsn = ''vertica'', v_table = ''adjust_daily_active_users''\<rparr>,
      s_adjust = \<lparr>a_token = ''abcdefg'',
                  a_apps = [(''firefox'', ''abc123''), (''focus'', ''abc123'')]\<rparr>\<rparr>"

text \<open>A configuration whose app names have two characters.\<close>

definition short_names_config :: settings where
  "short_names_config =
     \<lparr>s_load_path = ''/tmp/adjust_daus'',
      s_vertica = \<lparr>v_dsn = ''vertica'', v_table = ''adjust_daily_active_users''\<rparr>,
      s_adjust = \<lparr>a_token = ''abcdefg'',
                  a_apps = [(''fx'', ''abc123''), (''ab'', ''def456'')]\<rparr>\<rparr>"

section \<open>Properties\<close>

subsection \<open>The request URL\<close>

lemma format_app_key:
  "str_format ADJUST_URL_BASE [(''app_key'', k)] = Inr (''https://api.adjust.com/kpis/v1/'' @ k)"
  by (simp add: str_format_def ADJUST_URL_BASE_def emit_def)

lemma format_user_token:
  "str_format ''?user_token={user_token}'' [(''user_token'', t)] = Inr (''?user_token='' @ t)"
  by (simp add: str_format_def emit_def)

lemma build_dau_url_eq:
  "build_dau_url k t =
     Inr (''https://api.adjust.com/kpis/v1/'' @ k @ ''.csv?user_token='' @ t @
          ''&kpis=daus,waus,maus,installs&start_date=2000-01-01&end_date=2030-01-01'' @
          ''&grouping=day,os_names&os_names=android,ios'')"
  by (simp add: build_dau_url_def format_app_key format_user_token)

text \<open>
  C5. \<open>build_dau_url\<close> applied to the app key \<open>abc123\<close> and the token \<open>tok\<close> returns exactly
  the URL of the specification.
\<close>

theorem build_dau_url_abc123:
  "build_dau_url ''abc123'' ''tok'' =
     Inr ''https://api.adjust.com/kpis/v1/abc123.csv?user_token=tok&kpis=daus,waus,maus,installs&start_date=2000-01-01&end_date=2030-01-01&grouping=day,os_names&os_names=android,ios''"
  by (simp add: build_dau_url_eq)

text \<open>
  C10. \<open>build_dau_url\<close> neither encodes nor validates its inputs: for every app key \<open>k\<close>
  and every token \<open>t\<close> it returns, without raising, the fixed text with \<open>k\<close> and \<open>t\<close>
  inserted as they are. Whatever characters they hold, \<open>&\<close>, \<open>?\<close>, \<open>/\<close> or braces,
  appear in the URL unchanged.
\<close>

theorem build_dau_url_verbatim:
  "build_dau_url k t =
     Inr (''https://api.adjust.com/kpis/v1/'' @ k @ ''.csv?user_token='' @ t @
          ''&kpis=daus,waus,maus,installs&start_date=2000-01-01&end_date=2030-01-01&grouping=day,os_names&os_names=android,ios'')"
  by (simp add: build_dau_url_def format_app_key format_user_token)

subsection \<open>Report Fetcher\<close>

lemma cells_installs: "cells l ! Suc (Suc (Suc (Suc (Suc 0)))) = installs_of l"
  by (cases l) simp

lemma astype_fillna:
  "astype_int (fillna (Num 0) col) =
     (if list_ex is_txt col then Inl ValueError else Inr (fillna (Num 0) col))"
proof (induction col)
  case Nil
  then show ?case by (simp add: fillna_def)
next
  case (Cons c cs)
  then show ?case by (cases c) (simp_all add: fillna_def)
qed

lemma getitem_installs:
  "getitem \<lparr>columns = [''adj_date'', ''os'', ''daus'', ''waus'', ''maus'', ''installs''],
            rows = map cells ls\<rparr> ''installs'' = Inr (map installs_of ls)"
  by (simp add: getitem_def cells_installs)

lemma setitem_installs:
  "setitem \<lparr>columns = [''adj_date'', ''os'', ''daus'', ''waus'', ''maus'', ''installs''],
            rows = map cells ls\<rparr> ''installs'' (fillna (Num 0) (map installs_of ls)) =
     \<lparr>columns = [''adj_date'', ''os'', ''daus'', ''waus'', ''maus'', ''installs''],
      rows = map (\<lambda>l. butlast (report_row app l)) ls\<rparr>"
proof -
  have "map2 (\<lambda>r v. r[Suc (Suc (Suc (Suc (Suc 0)))) := v]) (map cells ls)
          (fillna (Num 0) (map installs_of ls)) =
        map (\<lambda>l. butlast (report_row app l)) ls"
  proof (induction ls)
    case Nil
    then show ?case by (simp add: fillna_def)
  next
    case (Cons l ls)
    then show ?case by (cases l) (simp add: fillna_def)
  qed
  then show ?thesis by (simp add: setitem_def)
qed

lemma setitem_app:
  "setitem \<lparr>columns = [''adj_date'', ''os'', ''daus'', ''waus'', ''maus'', ''installs''],
            rows = map (\<lambda>l. butlast (report_row app l)) ls\<rparr> ''app''
       (replicate (length ls) (Txt app)) =
     \<lparr>columns = report_columns, rows = map (report_row app) ls\<rparr>"
proof -
  have "map2 (\<lambda>r v. r @ [v]) (map (\<lambda>l. butlast (report_row app l)) ls)
          (replicate (length ls) (Txt app)) = map (report_row app) ls"
  proof (induction ls)
    case Nil
    then show ?case by simp
  next
    case (Cons l ls)
    then show ?case by (cases l) simp
  qed
  then show ?thesis by (simp add: setitem_def report_columns_def)
qed

text \<open>
  What \<open>collect_app\<close> returns, in all cases: the error of the request; ValueError when
  an installs field after the first record is text; otherwise the Report Rows of the
  records after the first. The URL is requested once in every case.
\<close>

lemma collect_app_eq:
  "collect_app app url w =
     (case http w url of
        Inl e \<Rightarrow> (Inl e, w\<lparr>requested := requested w @ [url]\<rparr>)
      | Inr body \<Rightarrow>
          if list_ex is_txt (map installs_of (drop 1 body))
          then (Inl ValueError, w\<lparr>requested := requested w @ [url]\<rparr>)
          else (Inr \<lparr>columns = report_columns, rows = map (report_row app) (drop 1 body)\<rparr>,
                w\<lparr>requested := requested w @ [url]\<rparr>))"
proof (cases "http w url")
  case (Inl e)
  then show ?thesis by (simp add: collect_app_def read_csv_def)
next
  case (Inr body)
  define ls where "ls = drop (Suc 0) body"
  have read: "read_csv url (Some 0)
                [''adj_date'', ''os'', ''daus'', ''waus'', ''maus'', ''installs''] w =
              (Inr \<lparr>columns = [''adj_date'', ''os'', ''daus'', ''waus'', ''maus'', ''installs''],
                    rows = map cells ls\<rparr>, w\<lparr>requested := requested w @ [url]\<rparr>)"
    using Inr by (simp add: read_csv_def ls_def)
  have len: "length (rows (setitem
               \<lparr>columns = [''adj_date'', ''os'', ''daus'', ''waus'', ''maus'', ''installs''],
                rows = map cells ls\<rparr> ''installs'' (fillna (Num 0) (map installs_of ls)))) =
             length ls"
    by (simp add: setitem_installs [of ls app])
  have "collect_app app url w =
          (if list_ex is_txt (map installs_of ls)
           then (Inl ValueError, w\<lparr>requested := requested w @ [url]\<rparr>)
           else (Inr \<lparr>columns = report_columns, rows = map (report_row app) ls\<rparr>,
                 w\<lparr>requested := requested w @ [url]\<rparr>))"
    unfolding collect_app_def Let_def read
    by (simp only: prod.case sum.case getitem_installs astype_fillna len
                   setitem_installs [of ls app] setitem_app split: if_split)
       (simp add: setitem_app)
  with Inr show ?thesis by (simp add: ls_def)
qed

lemma collect_app_columns:
  "fst (collect_app app url w) = Inr df \<Longrightarrow> columns df = report_columns"
  by (auto simp: collect_app_eq split: sum.splits if_splits)










subsection \<open>Report Merger\<close>







text \<open>
  C1 fails on the code. The loop of \<open>merge_apps\<close> iterates the dictionary itself, which
  yields the app names, and unpacks each name into \<open>app, key\<close>. With the configuration
  of the docstring of \<open>adjust_cmd\<close> the first name, \<open>firefox\<close>, has seven characters:
  the unpacking raises ValueError and the Fetcher is not invoked at all, in any world
  (nothing is requested, the world is as before).
\<close>

theorem merge_apps_example_config_raises:
  "merge_apps (a_apps (s_adjust example_config)) (a_token (s_adjust example_config)) w =
     (Inl ValueError, w)"
  by (simp add: example_config_def merge_apps_def iter_def)

text \<open>
  C6 fails on the code, by the same loop. For two apps \<open>firefox\<close> and \<open>focus\<close> whose
  reports hold three and five records after the header, no merged table is produced:
  \<open>merge_apps\<close> raises ValueError before any fetch. When a name has exactly two
  characters, as \<open>fx\<close>, the loop goes on with the app \<open>f\<close> and the key \<open>x\<close> in place of
  the configured key: the rows are labelled \<open>f\<close>, not \<open>fx\<close>.
\<close>

theorem merge_apps_two_reports_raises:
  "merge_apps [(''firefox'', ''abc123''), (''focus'', ''def456'')] ''abcdefg''
       (fresh_world two_reports) =
     (Inl ValueError, fresh_world two_reports) \<and>
   fst (merge_apps [(''fx'', ''abc123'')] ''abcdefg'' (fresh_world report_for_x)) =
     Inr \<lparr>columns = report_columns,
          rows = [[Txt ''2019-01-01'', Txt ''android'', Num 10, Num 50, Num 200, Num 0, Txt ''f''],
                  [Txt ''2019-01-02'', Txt ''android'', Num 10, Num 50, Num 200, Num 3,
                   Txt ''f'']]\<rparr>"
  by (simp add: merge_apps_def iter_def build_dau_url_eq collect_app_eq fresh_world_def
      report_for_x_def example_url_def pd_concat_def header_line_def report_line_def)

lemma collect_app_world:
  "snd (collect_app app url w) = w\<lparr>requested := requested w @ [url]\<rparr>"
  by (simp add: collect_app_eq split: sum.split)

lemma merge_loop_step:
  "merge_loop (item # items) t frames w =
     (case unpack_pair item of
        Inl e \<Rightarrow> (Inl e, w)
      | Inr (app, key) \<Rightarrow>
          (case collect_app app (projr (build_dau_url key t)) w of
             (Inl e, w') \<Rightarrow> (Inl e, w')
           | (Inr df, w') \<Rightarrow> merge_loop items t (frames @ [df]) w'))"
  by (simp add: build_dau_url_eq split: sum.split prod.split)

lemma merge_loop_append:
  "merge_loop (xs @ ys) t frames w =
     (case merge_loop xs t frames w of
        (Inl e, w') \<Rightarrow> (Inl e, w')
      | (Inr frames', w') \<Rightarrow> merge_loop ys t frames' w')"
proof (induction xs arbitrary: frames w)
  case Nil
  show ?case by (simp split: sum.split prod.split)
next
  case (Cons x xs)
  show ?case
    by (simp only: append_Cons merge_loop_step Cons.IH) (simp split: sum.split prod.split)
qed

lemma merge_loop_world:
  "fs_files (snd (merge_loop items t frames w)) = fs_files w \<and>
   fs_dirs (snd (merge_loop items t frames w)) = fs_dirs w \<and>
   submitted (snd (merge_loop items t frames w)) = submitted w \<and>
   tables (snd (merge_loop items t frames w)) = tables w"
proof (induction items arbitrary: frames w)
  case Nil
  show ?case by simp
next
  case (Cons item items)
  show ?case
  proof (cases "unpack_pair item")
    case (Inl e)
    then show ?thesis by (simp only: merge_loop_step sum.case snd_conv)
  next
    case (Inr p)
    obtain app key where p: "p = (app, key)" by (cases p)
    let ?url = "projr (build_dau_url key t)"
    obtain r w1 where c: "collect_app app ?url w = (r, w1)"
      by (cases "collect_app app ?url w")
    then have w1: "w1 = w\<lparr>requested := requested w @ [?url]\<rparr>"
      using collect_app_world [of app ?url w] by simp
    show ?thesis
    proof (cases r)
      case (Inl e)
      with Inr p c w1 show ?thesis by (simp only: merge_loop_step) simp
    next
      case r: (Inr df)
      have "merge_loop (item # items) t frames w = merge_loop items t (frames @ [df]) w1"
        using Inr p c r by (simp only: merge_loop_step) simp
      with Cons.IH [of "frames @ [df]" w1] w1 show ?thesis by simp
    qed
  qed
qed


text \<open>
  C8. When the fetch for one configured app raises an error, the apps before it having
  been fetched, \<open>merge_apps\<close> raises that same error: the failing URL is requested once,
  no later app is fetched and no table is returned. The run of \<open>adjust_cmd\<close> ends with
  that error; the files, the directories, the tables and the statements submitted to the
  warehouse are those of the start, so no output file is written and the Loader is never
  invoked.
\<close>

theorem fetch_error_aborts_run:
  assumes apps: "a_apps (s_adjust config) = pre_apps @ (name, k) # post_apps"
      and pre: "merge_loop (iter pre_apps) (a_token (s_adjust config)) [] w = (Inr frames, w1)"
      and un: "unpack_pair name = Inr (app, key)"
      and url: "build_dau_url key (a_token (s_adjust config)) = Inr url"
      and fetch: "fst (collect_app app url w1) = Inl e"
      and conn: "connect_raises w (''DSN='' @ v_dsn (s_vertica config)) = None"
      and w': "w' = w1\<lparr>requested := requested w1 @ [url]\<rparr>"
  shows "merge_apps (a_apps (s_adjust config)) (a_token (s_adjust config)) w = (Inl e, w') \<and>
         adjust_cmd config w = (Inl e, w') \<and>
         fs_files w' = fs_files w \<and> fs_dirs w' = fs_dirs w \<and>
         submitted w' = submitted w \<and> tables w' = tables w"
proof -
  let ?t = "a_token (s_adjust config)"
  from fetch have c: "collect_app app url w1 = (Inl e, w')"
    using collect_app_world [of app url w1] w' by (cases "collect_app app url w1") simp
  have "merge_loop (iter (pre_apps @ (name, k) # post_apps)) ?t [] w = (Inl e, w')"
    using pre un url c by (simp add: iter_def merge_loop_append)
  then have m: "merge_apps (a_apps (s_adjust config)) ?t w = (Inl e, w')"
    using apps by (simp add: merge_apps_def)
  then have a: "adjust_cmd config w = (Inl e, w')"
    using conn by (simp add: adjust_cmd_def connect_def collect_def)
  from merge_loop_world [of "iter pre_apps" ?t "[]" w] pre w'
  have "fs_files w' = fs_files w \<and> fs_dirs w' = fs_dirs w \<and>
         submitted w' = submitted w \<and> tables w' = tables w" by simp
  with m a show ?thesis by simp
qed

theorem fetch_error_aborts_run_witness:
  "merge_apps (a_apps (s_adjust short_names_config)) (a_token (s_adjust short_names_config))
       (fresh_world report_for_x) =
     (Inl URLError,
      (fresh_world report_for_x)\<lparr>requested := [example_url ''x'', example_url ''b'']\<rparr>) \<and>
   adjust_cmd short_names_config (fresh_world report_for_x) =
     (Inl URLError,
      (fresh_world report_for_x)\<lparr>requested := [example_url ''x'', example_url ''b'']\<rparr>)"
  using fetch_error_aborts_run
          [where config = short_names_config and pre_apps = "[(''fx'', ''abc123'')]"
             and name = "''ab''" and k = "''def456''" and post_apps = "[]"
             and w = "fresh_world report_for_x"
             and frames = "[\<lparr>columns = report_columns,
                  rows = [[Txt ''2019-01-01'', Txt ''android'', Num 10, Num 50, Num 200, Num 0,
                           Txt ''f''],
                          [Txt ''2019-01-02'', Txt ''android'', Num 10, Num 50, Num 200, Num 3,
                           Txt ''f'']]\<rparr>]"
             and ?w1.0 = "(fresh_world report_for_x)\<lparr>requested := [example_url ''x'']\<rparr>"
             and app = "''a''" and key = "''b''" and url = "example_url ''b''"
             and e = URLError
             and w' = "(fresh_world report_for_x)
                         \<lparr>requested := [example_url ''x'', example_url ''b'']\<rparr>"]
  by (simp add: short_names_config_def merge_apps_def iter_def build_dau_url_eq collect_app_eq
      fresh_world_def report_for_x_def example_url_def header_line_def report_line_def
      adjust_cmd_def connect_def collect_def)

text \<open>
  C9. For an empty app mapping \<open>merge_apps\<close> raises ValueError, the error of \<open>pd.concat\<close>
  on an empty list, and returns no table. A run of \<open>adjust_cmd\<close> with such a configuration
  fails, with the error of the connection if the warehouse refuses it and with this
  ValueError otherwise, and leaves the world as it was: no file is written and no
  statement reaches the warehouse.
\<close>

theorem merge_apps_empty_raises:
  "merge_apps [] token w = (Inl ValueError, w) \<and>
   adjust_cmd (config\<lparr>s_adjust := (s_adjust config)\<lparr>a_apps := []\<rparr>\<rparr>) w =
     (Inl (case connect_raises w (''DSN='' @ v_dsn (s_vertica config)) of
             Some e \<Rightarrow> e
           | None \<Rightarrow> ValueError), w)"
  by (simp add: merge_apps_def iter_def pd_concat_def adjust_cmd_def connect_def collect_def
      split: option.split)

subsection \<open>Warehouse Loader\<close>

lemma format_truncate:
  "str_format ''TRUNCATE TABLE {tbl}'' [(''tbl'', table)] = Inr (truncate_statement table)"
  by (simp add: str_format_def emit_def truncate_statement_def)

lemma format_copy:
  "str_format (''COPY {table} FROM LOCAL '{data_file}' '' @
               ''DELIMITER ',' SKIP 1 '' @
               ''REJECTED DATA '{reject_file}' '' @
               ''EXCEPTIONS '{exception_file}' '' @
               ''ABORT ON ERROR DIRECT'')
     [(''table'', table), (''data_file'', data_file), (''reject_file'', reject_file),
      (''exception_file'', exception_file)] =
   Inr (copy_statement table data_file reject_file exception_file)"
  by (simp add: str_format_def emit_def copy_statement_def)

lemma strip_prefix_append: "strip_prefix p (p @ s) = Some s"
  by (induction p) simp_all

lemma execute_truncate:
  "execute c (truncate_statement t) w =
     (case db_raises w (truncate_statement t) of
        Some e \<Rightarrow> (Inl e, w\<lparr>submitted := submitted w @ [truncate_statement t]\<rparr>)
      | None \<Rightarrow> (Inr (), w\<lparr>submitted := submitted w @ [truncate_statement t],
                           tables := (tables w)(t := [])\<rparr>))"
  using strip_prefix_append [of "''TRUNCATE TABLE ''" t]
  by (simp add: execute_def truncate_statement_def split: option.split)

lemma execute_submitted: "submitted (snd (execute c stmt w)) = submitted w @ [stmt]"
  by (simp add: execute_def Let_def split: option.split prod.split)

lemma execute_raises_tables:
  "fst (execute c stmt w) = Inl e \<Longrightarrow> tables (snd (execute c stmt w)) = tables w"
  by (auto simp: execute_def Let_def split: option.splits prod.splits)

text \<open>The Loader is the two statements in this order, the second only after the first.\<close>

lemma load_eq:
  "load c t d r x w =
     (case execute c (truncate_statement t) w of
        (Inl e, w1) \<Rightarrow> (Inl e, w1)
      | (Inr u, w1) \<Rightarrow> execute c (copy_statement t d r x) w1)"
  by (simp add: load_def format_truncate format_copy del: append.simps
      split: prod.split sum.split)

text \<open>
  C4. In every invocation of \<open>load\<close> the statements that reach the warehouse are the
  \<open>TRUNCATE TABLE\<close> first and, when the warehouse accepts it, the \<open>COPY\<close> after it.
  Whenever the truncate has run and the \<open>COPY\<close> raises, \<open>load\<close> raises that error and
  the target table is left empty: the tables are those of the start with the target
  emptied, the truncate is not undone.
\<close>

theorem load_truncates_before_copy:
  "submitted (snd (load c t d r x w)) =
     submitted w @ truncate_statement t #
       (if db_raises w (truncate_statement t) = None then [copy_statement t d r x] else []) \<and>
   (execute c (truncate_statement t) w = (Inr (), w1) \<and>
    fst (execute c (copy_statement t d r x) w1) = Inl e \<longrightarrow>
      fst (load c t d r x w) = Inl e \<and>
      tables (snd (load c t d r x w)) t = [] \<and>
      tables (snd (load c t d r x w)) = (tables w)(t := []))"
proof (intro conjI impI)
  show "submitted (snd (load c t d r x w)) =
     submitted w @ truncate_statement t #
       (if db_raises w (truncate_statement t) = None then [copy_statement t d r x] else [])"
    by (auto simp: load_eq execute_truncate execute_submitted split: option.splits)
next
  assume a: "execute c (truncate_statement t) w = (Inr (), w1) \<and>
    fst (execute c (copy_statement t d r x) w1) = Inl e"
  then have l: "load c t d r x w = execute c (copy_statement t d r x) w1"
    by (simp add: load_eq)
  from a have w1: "tables w1 = (tables w)(t := [])"
    by (auto simp: execute_truncate split: option.splits)
  from a l show "fst (load c t d r x w) = Inl e" by simp
  from a l w1 show "tables (snd (load c t d r x w)) = (tables w)(t := [])"
    using execute_raises_tables [of c "copy_statement t d r x" w1 e] by simp
  then show "tables (snd (load c t d r x w)) t = []" by simp
qed

theorem load_truncates_before_copy_witness:
  "tables refusing_copy ''adjust_daily_active_users'' \<noteq> [] \<and>
   fst (load (Cursor ''DSN=vertica'') ''adjust_daily_active_users''
          ''/tmp/adjust_daus/output.csv'' ''/tmp/adjust_daus/rejects''
          ''/tmp/adjust_daus/exceptions'' refusing_copy) = Inl DatabaseError \<and>
   tables (snd (load (Cursor ''DSN=vertica'') ''adjust_daily_active_users''
                  ''/tmp/adjust_daus/output.csv'' ''/tmp/adjust_daus/rejects''
                  ''/tmp/adjust_daus/exceptions'' refusing_copy))
     ''adjust_daily_active_users'' = [] \<and>
   submitted (snd (load (Cursor ''DSN=vertica'') ''adjust_daily_active_users''
                     ''/tmp/adjust_daus/output.csv'' ''/tmp/adjust_daus/rejects''
                     ''/tmp/adjust_daus/exceptions'' refusing_copy)) =
     [''TRUNCATE TABLE adjust_daily_active_users'',
      copy_statement ''adjust_daily_active_users'' ''/tmp/adjust_daus/output.csv''
        ''/tmp/adjust_daus/rejects'' ''/tmp/adjust_daus/exceptions'']"
  using load_truncates_before_copy
          [of "Cursor ''DSN=vertica''" "''adjust_daily_active_users''"
              "''/tmp/adjust_daus/output.csv''" "''/tmp/adjust_daus/rejects''"
              "''/tmp/adjust_daus/exceptions''" refusing_copy
              "refusing_copy\<lparr>submitted := [''TRUNCATE TABLE adjust_daily_active_users''],
                 tables := (tables refusing_copy)(''adjust_daily_active_users'' := [])\<rparr>"
              DatabaseError]
  by (simp add: refusing_copy_def fresh_world_def execute_def truncate_statement_def
      copy_statement_def)

subsection \<open>File Writer\<close>















end
